theory Spec2Isabelle
  imports Main
begin

section \<open>The API client of front-end/src/utils/api.js\<close>

text \<open>
  The file exports eleven asynchronous functions. Each builds a URL and an options object,
  hands them to \<^verbatim>\<open>fetchJson\<close> and returns its promise. The embedding keeps the
  functions one by one. A promise is modelled by the way it settles, the network and the
  built-in functions of the platform are parameters collected in an environment, and the
  requests a call issues and the errors it logs are returned with its outcome.
\<close>

subsection \<open>JavaScript values\<close>

text \<open>
  The values that the functions receive from their callers and from \<^verbatim>\<open>response.json()\<close>.
  An object is a plain object: the list of its own properties, each key once and in the
  order of enumeration, with the prototype of object literals. There are no functions among
  the values. A number is a safe integer, one of magnitude at most \<open>2^53 - 1\<close>: these are
  numbers that a double holds exactly and prints as their decimal numeral, and the
  identifiers and counts of this application are among them. \<open>Safe n\<close> is the number
  \<open>n\<close> for such an \<open>n\<close>, and is left unspecified for any other.
\<close>

typedef safe_integer = "{n :: int. - 9007199254740991 \<le> n \<and> n \<le> 9007199254740991}"
  morphisms int_of_safe Safe
  by (rule exI [of _ 0]) simp

datatype js =
    Undefined
  | Null
  | Bool bool
  | Num safe_integer
  | Str string
  | Arr "js list"
  | Obj "(string \<times> js) list"

text \<open>An Error object, by its \<^verbatim>\<open>name\<close> and \<^verbatim>\<open>message\<close>.\<close>

datatype error = Error (name: string) (message: string)

definition TypeError :: error where
  "TypeError = Error ''TypeError'' ''Cannot read properties of undefined or null''"

text \<open>The test \<^verbatim>\<open>if (v)\<close>: the falsy values are undefined, null, false, 0 and the empty string.\<close>

fun truthy :: "js \<Rightarrow> bool" where
  "truthy Undefined = False"
| "truthy Null = False"
| "truthy (Bool b) = b"
| "truthy (Num n) = (int_of_safe n \<noteq> 0)"
| "truthy (Str s) = (s \<noteq> [])"
| "truthy (Arr xs) = True"
| "truthy (Obj kvs) = True"

text \<open>
  The property read \<^verbatim>\<open>v.k\<close>, for the keys this file reads (\<^verbatim>\<open>error\<close>, \<^verbatim>\<open>data\<close>,
  \<^verbatim>\<open>table_id\<close>, \<^verbatim>\<open>reservation_id\<close>): it throws a TypeError on undefined and null, gives
  the property of an object, and undefined where there is none, as on every primitive
  value and array for these keys.
\<close>

fun read_prop :: "js \<Rightarrow> string \<Rightarrow> error + js" where
  "read_prop Undefined k = Inl TypeError"
| "read_prop Null k = Inl TypeError"
| "read_prop (Obj kvs) k = Inr (case map_of kvs k of None \<Rightarrow> Undefined | Some v \<Rightarrow> v)"
| "read_prop v k = Inr Undefined"

text \<open>The decimal numeral of a number, as a template literal and \<^verbatim>\<open>toString()\<close> print it.\<close>

fun digits :: "nat \<Rightarrow> string" where
  "digits n =
     (if n < 10 then [''0123456789'' ! n]
      else digits (n div 10) @ [''0123456789'' ! (n mod 10)])"

declare digits.simps [simp del]

definition Number_toString :: "safe_integer \<Rightarrow> string" where
  "Number_toString n =
     (if int_of_safe n < 0 then ''-'' @ digits (nat (- int_of_safe n))
      else digits (nat (int_of_safe n)))"

text \<open>
  The conversion to a string that a template literal \<^verbatim>\<open>${v}\<close> applies. An array joins
  the strings of its elements with commas, null and undefined elements counting as the empty
  string, and throws where an element throws. An object without a property
  \<^verbatim>\<open>toString\<close> of its own prints through \<^verbatim>\<open>Object.prototype.toString\<close>; one with such a
  property, which is not a function, has nothing left to call and throws a TypeError.
\<close>

fun ToString :: "js \<Rightarrow> error + string"
  and join_elements :: "js list \<Rightarrow> error + string" where
  "ToString Undefined = Inr ''undefined''"
| "ToString Null = Inr ''null''"
| "ToString (Bool b) = Inr (if b then ''true'' else ''false'')"
| "ToString (Num n) = Inr (Number_toString n)"
| "ToString (Str s) = Inr s"
| "ToString (Arr xs) = join_elements xs"
| "ToString (Obj kvs) =
     (case map_of kvs ''toString'' of
        None \<Rightarrow> Inr ''[object Object]''
      | Some f \<Rightarrow> Inl TypeError)"
| "join_elements [] = Inr []"
| "join_elements (x # xs) =
     (case (if x = Undefined \<or> x = Null then Inr [] else ToString x) of
        Inl err \<Rightarrow> Inl err
      | Inr s \<Rightarrow>
          if xs = [] then Inr s
          else (case join_elements xs of
                  Inl err \<Rightarrow> Inl err
                | Inr t \<Rightarrow> Inr (s @ '','' @ t)))"

text \<open>
  The method call \<^verbatim>\<open>value.toString()\<close>: it throws on undefined and null, and gives the
  same string as the conversion on every other value.
\<close>

definition toString :: "js \<Rightarrow> error + string" where
  "toString v = (if v = Undefined \<or> v = Null then Inl TypeError else ToString v)"

subsection \<open>Requests, responses and the environment\<close>

text \<open>
  The options object handed to \<^verbatim>\<open>fetch\<close>; a key that the object literal leaves out is
  \<open>None\<close>. The signal is the caller's, passed on as it is.
\<close>

type_synonym signal = "nat option"

record options =
  http_method :: "string option"
  http_headers :: "(string \<times> string) list option"
  body :: "string option"
  signal :: signal

text \<open>The method of the request: \<^verbatim>\<open>fetch\<close> sends a GET where the options name none.\<close>

definition request_method :: "options \<Rightarrow> string" where
  "request_method opts = (case http_method opts of None \<Rightarrow> ''GET'' | Some m \<Rightarrow> m)"

text \<open>
  A response: its status, and what \<^verbatim>\<open>response.json()\<close> settles with (the parsed body, or
  the error of a body that is not JSON or of a read that was aborted).
\<close>

record response =
  status :: nat
  json :: "error + js"

text \<open>
  A URL object as \<^verbatim>\<open>new URL\<close> returns it: the text of the URL up to the end of its path,
  its query (\<open>None\<close> where it has none), the name and value pairs that
  \<^verbatim>\<open>url.searchParams\<close> holds for that query, and its fragment.
\<close>

record URL =
  origin_and_path :: string
  query :: "string option"
  searchParams :: "(string \<times> string) list"
  fragment :: "string option"

text \<open>
  The environment of the module: the variable \<^verbatim>\<open>process.env.REACT_APP_API_BASE_URL\<close>, the
  network behind \<^verbatim>\<open>fetch\<close> (a rejection is \<open>Inl\<close>), the built-in \<^verbatim>\<open>JSON.stringify\<close>, the
  constructor \<^verbatim>\<open>new URL\<close> of the platform, which throws a TypeError on a string that is
  not an absolute URL and normalises the others, and the default export of the module
  \<^verbatim>\<open>./format-reservation-date\<close>, whose source is not part of this file.
\<close>

record env =
  REACT_APP_API_BASE_URL :: "string option"
  fetch :: "string \<Rightarrow> options \<Rightarrow> error + response"
  JSON_stringify :: "js \<Rightarrow> string"
  new_URL :: "string \<Rightarrow> error + URL"
  format_reservation_date_default :: "js \<Rightarrow> error + js"

text \<open>
  Lines 5 and 6 import \<^verbatim>\<open>formatReservationDate\<close> and \<^verbatim>\<open>formatReservationTime\<close> as the
  default export of the same module, \<^verbatim>\<open>./format-reservation-date\<close>.
\<close>

definition formatReservationDate :: "env \<Rightarrow> js \<Rightarrow> error + js" where
  "formatReservationDate e = format_reservation_date_default e"

definition formatReservationTime :: "env \<Rightarrow> js \<Rightarrow> error + js" where
  "formatReservationTime e = format_reservation_date_default e"

text \<open>Line 8: an unset or empty variable gives the local default.\<close>

definition API_BASE_URL :: "env \<Rightarrow> string" where
  "API_BASE_URL e =
     (case REACT_APP_API_BASE_URL e of
        None \<Rightarrow> ''http://localhost:5001''
      | Some s \<Rightarrow> if s = [] then ''http://localhost:5001'' else s)"

text \<open>Lines 13 and 14: the shared Headers object.\<close>

definition headers :: "(string \<times> string) list" where
  "headers = [(''Content-Type'', ''application/json'')]"

subsection \<open>Settled promises\<close>

text \<open>
  A promise resolves with a value, rejects with an Error object that was thrown, or
  rejects with a plain object. A run is what a call has done when its promise settles:
  the requests handed to \<^verbatim>\<open>fetch\<close>, the errors written by \<^verbatim>\<open>console.error\<close>, the outcome.
\<close>

datatype outcome = Resolved js | Threw error | Rejected js

record run =
  issued :: "(string \<times> options) list"
  logged :: "error list"
  outcome :: outcome

text \<open>A call that throws before it reaches \<^verbatim>\<open>fetchJson\<close>.\<close>

definition throws :: "error \<Rightarrow> run" where
  "throws err = \<lparr>issued = [], logged = [], outcome = Threw err\<rparr>"

text \<open>\<^verbatim>\<open>promise.then(f)\<close> with a fulfilment handler only: a rejection passes through.\<close>

definition then_call :: "run \<Rightarrow> (js \<Rightarrow> error + js) \<Rightarrow> run" where
  "then_call r f =
     (case outcome r of
        Resolved v \<Rightarrow>
          (case f v of
             Inl err \<Rightarrow> r\<lparr>outcome := Threw err\<rparr>
           | Inr v' \<Rightarrow> r\<lparr>outcome := Resolved v'\<rparr>)
      | Threw err \<Rightarrow> r
      | Rejected v \<Rightarrow> r)"

subsection \<open>fetchJson\<close>

text \<open>
  The catch clause of lines 45 to 51: an error named AbortError resolves with
  \<^verbatim>\<open>onCancel\<close>, any other error is logged and thrown again.
\<close>

definition catch_clause :: "string \<Rightarrow> options \<Rightarrow> js \<Rightarrow> error \<Rightarrow> run" where
  "catch_clause url opts onCancel err =
     (if name err \<noteq> ''AbortError''
      then \<lparr>issued = [(url, opts)], logged = [err], outcome = Threw err\<rparr>
      else \<lparr>issued = [(url, opts)], logged = [], outcome = Resolved onCancel\<rparr>)"

text \<open>
  Lines 31 to 44. The rejection of line 42 is returned, not awaited, so the catch clause
  does not see it.
\<close>

definition fetchJson :: "env \<Rightarrow> string \<Rightarrow> options \<Rightarrow> js \<Rightarrow> run" where
  "fetchJson e url opts onCancel =
     (case fetch e url opts of
        Inl err \<Rightarrow> catch_clause url opts onCancel err
      | Inr resp \<Rightarrow>
          if status resp = 204
          then \<lparr>issued = [(url, opts)], logged = [], outcome = Resolved Null\<rparr>
          else
            (case json resp of
               Inl err \<Rightarrow> catch_clause url opts onCancel err
             | Inr payload \<Rightarrow>
                 (case read_prop payload ''error'' of
                    Inl err \<Rightarrow> catch_clause url opts onCancel err
                  | Inr payload_error \<Rightarrow>
                      if truthy payload_error
                      then \<lparr>issued = [(url, opts)], logged = [],
                            outcome = Rejected (Obj [(''message'', payload_error)])\<rparr>
                      else
                        (case read_prop payload ''data'' of
                           Inl err \<Rightarrow> catch_clause url opts onCancel err
                         | Inr payload_data \<Rightarrow>
                             \<lparr>issued = [(url, opts)], logged = [],
                              outcome = Resolved payload_data\<rparr>))))"

subsection \<open>The URL object of listReservations\<close>

text \<open>
  The serializer of \<^verbatim>\<open>url.searchParams\<close> (application/x-www-form-urlencoded): letters,
  digits and the characters \<^verbatim>\<open>* - . _\<close> stay, a space becomes \<^verbatim>\<open>+\<close>, every other byte
  is written as a percent sign and two upper-case hexadecimal digits.
\<close>

definition urlencode_byte :: "char \<Rightarrow> string" where
  "urlencode_byte c =
     (if c = CHR '' '' then ''+''
      else if c \<in> set ''*-._0123456789ABCDEFGHIJKLMNOPQRSTUVWXYZabcdefghijklmnopqrstuvwxyz''
      then [c]
      else [CHR ''%'', ''0123456789ABCDEF'' ! (of_char c div 16),
            ''0123456789ABCDEF'' ! (of_char c mod 16)])"

definition urlencode :: "string \<Rightarrow> string" where
  "urlencode s = concat (map urlencode_byte s)"

fun serialize :: "(string \<times> string) list \<Rightarrow> string" where
  "serialize [] = []"
| "serialize [(k, v)] = urlencode k @ ''='' @ urlencode v"
| "serialize ((k, v) # p # ps) = urlencode k @ ''='' @ urlencode v @ ''&'' @ serialize (p # ps)"

text \<open>The text of a URL object, its \<^verbatim>\<open>href\<close>, which is what \<^verbatim>\<open>fetch\<close> is handed.\<close>

definition href :: "URL \<Rightarrow> string" where
  "href u =
     origin_and_path u
       @ (case query u of None \<Rightarrow> [] | Some q \<Rightarrow> ''?'' @ q)
       @ (case fragment u of None \<Rightarrow> [] | Some f \<Rightarrow> ''#'' @ f)"

text \<open>
  \<^verbatim>\<open>url.searchParams.append(key, value)\<close>: the pair joins the list, and the query of the
  URL becomes the serialized list (no query where that is the empty string).
\<close>

definition searchParams_append :: "URL \<Rightarrow> string \<Rightarrow> string \<Rightarrow> URL" where
  "searchParams_append u key val =
     u\<lparr>searchParams := searchParams u @ [(key, val)],
       query := (if serialize (searchParams u @ [(key, val)]) = [] then None
                 else Some (serialize (searchParams u @ [(key, val)])))\<rparr>"

text \<open>
  The loop of line 61 over \<^verbatim>\<open>Object.entries(params)\<close>: each value is converted with
  \<^verbatim>\<open>toString()\<close> and appended; the first value whose conversion throws ends the loop.
\<close>

fun append_entries :: "(string \<times> js) list \<Rightarrow> URL \<Rightarrow> error + URL" where
  "append_entries [] u = Inr u"
| "append_entries ((key, val) # entries) u =
     (case toString val of
        Inl err \<Rightarrow> Inl err
      | Inr s \<Rightarrow> append_entries entries (searchParams_append u key s))"

subsection \<open>The exported functions\<close>

text \<open>
  Each function computes its URL and its options, which may throw, and then calls
  \<^verbatim>\<open>fetchJson\<close>. The argument \<^verbatim>\<open>params\<close> of \<^verbatim>\<open>listReservations\<close> is an object, given by
  its entries in the order of \<^verbatim>\<open>Object.entries\<close>.
\<close>

definition listReservations :: "env \<Rightarrow> (string \<times> js) list \<Rightarrow> signal \<Rightarrow> run" where
  "listReservations e params sig =
     (case new_URL e (API_BASE_URL e @ ''/reservations'') of
        Inl err \<Rightarrow> throws err
      | Inr u \<Rightarrow>
          (case append_entries params u of
             Inl err \<Rightarrow> throws err
           | Inr url \<Rightarrow>
               then_call
                 (then_call
                    (fetchJson e (href url)
                       \<lparr>http_method = None, http_headers = Some headers, body = None,
                        signal = sig\<rparr>
                       (Arr []))
                    (formatReservationDate e))
                 (formatReservationTime e)))"

definition searchByPhone :: "env \<Rightarrow> js \<Rightarrow> signal \<Rightarrow> run" where
  "searchByPhone e mobile_number sig =
     (case ToString mobile_number of
        Inl err \<Rightarrow> throws err
      | Inr number \<Rightarrow>
          fetchJson e (API_BASE_URL e @ ''/reservations?mobile_number='' @ number)
            \<lparr>http_method = None, http_headers = None, body = None, signal = sig\<rparr> Undefined)"

definition createReservation :: "env \<Rightarrow> js \<Rightarrow> signal \<Rightarrow> run" where
  "createReservation e reservation sig =
     fetchJson e (API_BASE_URL e @ ''/reservations'')
       \<lparr>http_method = Some ''POST'', http_headers = Some headers,
        body = Some (JSON_stringify e (Obj [(''data'', reservation)])), signal = sig\<rparr>
       (Obj [])"

definition readReservation :: "env \<Rightarrow> js \<Rightarrow> signal \<Rightarrow> run" where
  "readReservation e reservation_id sig =
     (case ToString reservation_id of
        Inl err \<Rightarrow> throws err
      | Inr txt \<Rightarrow>
          fetchJson e (API_BASE_URL e @ ''/reservations/'' @ txt)
            \<lparr>http_method = None, http_headers = None, body = None, signal = sig\<rparr> Undefined)"

definition seatReservation :: "env \<Rightarrow> js \<Rightarrow> js \<Rightarrow> signal \<Rightarrow> run" where
  "seatReservation e reservation_id table sig =
     (case read_prop table ''table_id'' of
        Inl err \<Rightarrow> throws err
      | Inr table_id \<Rightarrow>
          (case ToString table_id of
             Inl err \<Rightarrow> throws err
           | Inr txt \<Rightarrow>
               fetchJson e (API_BASE_URL e @ ''/tables/'' @ txt @ ''/seat'')
                 \<lparr>http_method = Some ''PUT'', http_headers = Some headers,
                  body = Some (JSON_stringify e
                           (Obj [(''data'', Obj [(''reservation_id'', reservation_id)])])),
                  signal = sig\<rparr>
                 (Obj [])))"

definition updateReservation :: "env \<Rightarrow> js \<Rightarrow> signal \<Rightarrow> run" where
  "updateReservation e reservation sig =
     (case read_prop reservation ''reservation_id'' of
        Inl err \<Rightarrow> throws err
      | Inr reservation_id \<Rightarrow>
          (case ToString reservation_id of
             Inl err \<Rightarrow> throws err
           | Inr txt \<Rightarrow>
               fetchJson e (API_BASE_URL e @ ''/reservations/'' @ txt)
                 \<lparr>http_method = Some ''PUT'', http_headers = Some headers,
                  body = Some (JSON_stringify e (Obj [(''data'', reservation)])),
                  signal = sig\<rparr>
                 (Obj [])))"

definition updateReservationStatus :: "env \<Rightarrow> js \<Rightarrow> js \<Rightarrow> signal \<Rightarrow> run" where
  "updateReservationStatus e reservation_id status' sig =
     (case ToString reservation_id of
        Inl err \<Rightarrow> throws err
      | Inr txt \<Rightarrow>
          fetchJson e (API_BASE_URL e @ ''/reservations/'' @ txt @ ''/status'')
            \<lparr>http_method = Some ''PUT'', http_headers = Some headers,
             body = Some (JSON_stringify e (Obj [(''data'', Obj [(''status'', status')])])),
             signal = sig\<rparr>
            (Obj []))"

definition listTables :: "env \<Rightarrow> signal \<Rightarrow> run" where
  "listTables e sig =
     fetchJson e (API_BASE_URL e @ ''/tables'')
       \<lparr>http_method = None, http_headers = None, body = None, signal = sig\<rparr> Undefined"

definition createTable :: "env \<Rightarrow> js \<Rightarrow> signal \<Rightarrow> run" where
  "createTable e table sig =
     fetchJson e (API_BASE_URL e @ ''/tables'')
       \<lparr>http_method = Some ''POST'', http_headers = Some headers,
        body = Some (JSON_stringify e (Obj [(''data'', table)])), signal = sig\<rparr>
       (Obj [])"

definition readTableByReservation :: "env \<Rightarrow> js \<Rightarrow> signal \<Rightarrow> run" where
  "readTableByReservation e reservation_id sig =
     (case ToString reservation_id of
        Inl err \<Rightarrow> throws err
      | Inr txt \<Rightarrow>
          fetchJson e (API_BASE_URL e @ ''/tables/seated/'' @ txt)
            \<lparr>http_method = None, http_headers = None, body = None, signal = sig\<rparr> Undefined)"

definition finishTable :: "env \<Rightarrow> js \<Rightarrow> signal \<Rightarrow> run" where
  "finishTable e table sig =
     (case read_prop table ''table_id'' of
        Inl err \<Rightarrow> throws err
      | Inr table_id \<Rightarrow>
          (case ToString table_id of
             Inl err \<Rightarrow> throws err
           | Inr txt \<Rightarrow>
               fetchJson e (API_BASE_URL e @ ''/tables/'' @ txt @ ''/seat'')
                 \<lparr>http_method = Some ''DELETE'', http_headers = Some headers, body = None,
                  signal = sig\<rparr>
                 (Obj [])))"

text \<open>
  A call of one of the exported functions with its arguments, so that a statement about
  every operation is a statement about every call.
\<close>

datatype call =
    ListReservations "(string \<times> js) list"
  | SearchByPhone js
  | CreateReservation js
  | ReadReservation js
  | SeatReservation js js
  | UpdateReservation js
  | UpdateReservationStatus js js
  | ListTables
  | CreateTable js
  | ReadTableByReservation js
  | FinishTable js

fun perform :: "env \<Rightarrow> call \<Rightarrow> signal \<Rightarrow> run" where
  "perform e (ListReservations params) sig = listReservations e params sig"
| "perform e (SearchByPhone mobile_number) sig = searchByPhone e mobile_number sig"
| "perform e (CreateReservation reservation) sig = createReservation e reservation sig"
| "perform e (ReadReservation reservation_id) sig = readReservation e reservation_id sig"
| "perform e (SeatReservation reservation_id table) sig =
     seatReservation e reservation_id table sig"
| "perform e (UpdateReservation reservation) sig = updateReservation e reservation sig"
| "perform e (UpdateReservationStatus reservation_id status') sig =
     updateReservationStatus e reservation_id status' sig"
| "perform e ListTables sig = listTables e sig"
| "perform e (CreateTable table) sig = createTable e table sig"
| "perform e (ReadTableByReservation reservation_id) sig =
     readTableByReservation e reservation_id sig"
| "perform e (FinishTable table) sig = finishTable e table sig"

text \<open>The third argument that each function hands to \<^verbatim>\<open>fetchJson\<close>.\<close>

fun onCancel_of :: "call \<Rightarrow> js" where
  "onCancel_of (ListReservations params) = Arr []"
| "onCancel_of (SearchByPhone mobile_number) = Undefined"
| "onCancel_of (CreateReservation reservation) = Obj []"
| "onCancel_of (ReadReservation reservation_id) = Undefined"
| "onCancel_of (SeatReservation reservation_id table) = Obj []"
| "onCancel_of (UpdateReservation reservation) = Obj []"
| "onCancel_of (UpdateReservationStatus reservation_id status') = Obj []"
| "onCancel_of ListTables = Undefined"
| "onCancel_of (CreateTable table) = Obj []"
| "onCancel_of (ReadTableByReservation reservation_id) = Undefined"
| "onCancel_of (FinishTable table) = Obj []"

text \<open>
  What the promise chain of \<^verbatim>\<open>listReservations\<close> (lines 62 to 64) makes of a value that
  \<^verbatim>\<open>fetchJson\<close> resolved with; every other function returns that value as it is.
\<close>

definition formatted :: "env \<Rightarrow> js \<Rightarrow> outcome" where
  "formatted e v =
     (case formatReservationDate e v of
        Inl err \<Rightarrow> Threw err
      | Inr v' \<Rightarrow>
          (case formatReservationTime e v' of
             Inl err \<Rightarrow> Threw err
           | Inr v'' \<Rightarrow> Resolved v''))"

fun delivered :: "env \<Rightarrow> call \<Rightarrow> js \<Rightarrow> outcome" where
  "delivered e (ListReservations params) v = formatted e v"
| "delivered e c v = Resolved v"

text \<open>
  A call that has issued a request is the \<^verbatim>\<open>fetchJson\<close> of that request with the function's
  own fallback, followed for \<^verbatim>\<open>listReservations\<close> by the two handlers.
\<close>

definition settle :: "env \<Rightarrow> call \<Rightarrow> outcome \<Rightarrow> outcome" where
  "settle e c out =
     (case out of
        Resolved v \<Rightarrow> delivered e c v
      | Threw err \<Rightarrow> Threw err
      | Rejected v \<Rightarrow> Rejected v)"

subsection \<open>Example environments\<close>

text \<open>
  A serializer for the example environments, after \<^verbatim>\<open>JSON.stringify\<close> on an object
  literal: a property whose value is undefined is left out, an undefined array element is
  written \<^verbatim>\<open>null\<close>, a string is quoted with its control characters escaped.
\<close>

definition escape_char :: "char \<Rightarrow> string" where
  "escape_char c =
     (if c = CHR 0x22 then [CHR 0x5C, CHR 0x22]
      else if c = CHR 0x5C then [CHR 0x5C, CHR 0x5C]
      else if c = CHR 0x08 then [CHR 0x5C, CHR ''b'']
      else if c = CHR 0x0C then [CHR 0x5C, CHR ''f'']
      else if c = CHR 0x0A then [CHR 0x5C, CHR ''n'']
      else if c = CHR 0x0D then [CHR 0x5C, CHR ''r'']
      else if c = CHR 0x09 then [CHR 0x5C, CHR ''t'']
      else if (of_char c :: nat) < 32
      then [CHR 0x5C, CHR ''u'', CHR ''0'', CHR ''0'',
            ''0123456789abcdef'' ! (of_char c div 16), ''0123456789abcdef'' ! (of_char c mod 16)]
      else [c])"

definition quote :: "string \<Rightarrow> string" where
  "quote s = [CHR 0x22] @ concat (map escape_char s) @ [CHR 0x22]"

fun join :: "string list \<Rightarrow> string" where
  "join [] = []"
| "join [s] = s"
| "join (s # t # ss) = s @ '','' @ join (t # ss)"

fun stringify :: "js \<Rightarrow> string" where
  "stringify Undefined = ''null''"
| "stringify Null = ''null''"
| "stringify (Bool b) = (if b then ''true'' else ''false'')"
| "stringify (Num n) = Number_toString n"
| "stringify (Str s) = quote s"
| "stringify (Arr xs) = ''['' @ join (map stringify xs) @ '']''"
| "stringify (Obj kvs) =
     ''{'' @ join (map (\<lambda>(k, v). quote k @ '':'' @ stringify v)
                    (filter (\<lambda>(k, v). v \<noteq> Undefined) kvs)) @ ''}''"

text \<open>
  Modelled from the spec: the module \<^verbatim>\<open>./format-reservation-date\<close> is not among the
  sources. The spec says that the date and time fields of a reservation are reformatted for
  display after retrieval, that the result of the list operation is post-processed to
  reformat them, and that for all operations a 204 response yields an empty result and not
  an error. The formatter of the example environments therefore never throws: it reformats
  a record, or each record of a sequence, and hands every other value back as it is, null
  among them. The spec names no field and gives no display form. That the default export of
  this module is the formatter of dates is read from the import of line 5; the field
  \<^verbatim>\<open>reservation_date\<close> and the form, its first ten characters, are the choice of the
  example and no more.
\<close>

fun reformat_date :: "js \<Rightarrow> js" where
  "reformat_date (Obj kvs) =
     Obj (map (\<lambda>(k, v).
            (k, if k = ''reservation_date''
                then (case v of Str s \<Rightarrow> Str (take 10 s) | _ \<Rightarrow> v) else v)) kvs)"
| "reformat_date v = v"

definition date_formatter :: "js \<Rightarrow> error + js" where
  "date_formatter v =
     (case v of
        Arr xs \<Rightarrow> Inr (Arr (map reformat_date xs))
      | _ \<Rightarrow> Inr (reformat_date v))"

text \<open>
  The constructor \<^verbatim>\<open>new URL\<close> at the one string that the example environments hand to it,
  the default base followed by \<^verbatim>\<open>/reservations\<close>: an absolute URL in normal form without
  query or fragment, which the constructor keeps as it is written. No example parses
  another string.
\<close>

definition example_new_URL :: "string \<Rightarrow> error + URL" where
  "example_new_URL s =
     (if s = ''http://localhost:5001/reservations''
      then Inr \<lparr>origin_and_path = ''http://localhost:5001/reservations'', query = None,
                searchParams = [], fragment = None\<rparr>
      else Inl (Error ''TypeError'' ''Invalid URL''))"

text \<open>
  An environment with the default base URL, whose network settles every request in the
  same given way.
\<close>

definition example_env :: "error + response \<Rightarrow> env" where
  "example_env answer =
     \<lparr>REACT_APP_API_BASE_URL = None,
      fetch = (\<lambda>url opts. answer),
      JSON_stringify = stringify,
      new_URL = example_new_URL,
      format_reservation_date_default = date_formatter\<rparr>"

section \<open>Properties\<close>

subsection \<open>Numbers\<close>

lemma int_of_safe_Safe:
  assumes "- 9007199254740991 \<le> n" and "n \<le> 9007199254740991"
  shows "int_of_safe (Safe n) = n"
  using assms by (simp add: Safe_inverse)

subsection \<open>fetchJson\<close>

lemma issued_catch_clause: "issued (catch_clause url opts onCancel err) = [(url, opts)]"
  by (simp add: catch_clause_def)

lemma issued_fetchJson: "issued (fetchJson e url opts onCancel) = [(url, opts)]"
  by (simp add: fetchJson_def issued_catch_clause split: sum.splits)


lemma fetchJson_error:
  assumes "fetch e url opts = Inr resp" and "status resp \<noteq> 204"
    and "json resp = Inr payload" and "read_prop payload ''error'' = Inr v" and "truthy v"
  shows "fetchJson e url opts onCancel =
           \<lparr>issued = [(url, opts)], logged = [], outcome = Rejected (Obj [(''message'', v)])\<rparr>"
  using assms by (simp add: fetchJson_def)

lemma read_prop_twice:
  assumes "read_prop payload k = Inr v"
  shows "\<exists>d. read_prop payload k' = Inr d"
  using assms by (cases payload) simp_all

lemma fetchJson_data:
  assumes "fetch e url opts = Inr resp" and "status resp \<noteq> 204"
    and "json resp = Inr payload" and "read_prop payload ''error'' = Inr v" and "\<not> truthy v"
    and "read_prop payload ''data'' = Inr d"
  shows "fetchJson e url opts onCancel =
           \<lparr>issued = [(url, opts)], logged = [], outcome = Resolved d\<rparr>"
  using assms by (simp add: fetchJson_def)

lemma fetchJson_null_payload:
  assumes "fetch e url opts = Inr resp" and "status resp \<noteq> 204" and "json resp = Inr Null"
  shows "fetchJson e url opts onCancel =
           \<lparr>issued = [(url, opts)], logged = [TypeError], outcome = Threw TypeError\<rparr>"
  using assms by (simp add: fetchJson_def catch_clause_def TypeError_def)

lemma fetchJson_aborted:
  assumes "fetch e url opts = Inl err
           \<or> (fetch e url opts = Inr resp \<and> status resp \<noteq> 204 \<and> json resp = Inl err)"
    and "name err = ''AbortError''"
  shows "fetchJson e url opts onCancel =
           \<lparr>issued = [(url, opts)], logged = [], outcome = Resolved onCancel\<rparr>"
  using assms by (auto simp add: fetchJson_def catch_clause_def)

lemma fetchJson_failed:
  assumes "fetch e url opts = Inl err
           \<or> (fetch e url opts = Inr resp \<and> status resp \<noteq> 204 \<and> json resp = Inl err)"
    and "name err \<noteq> ''AbortError''"
  shows "fetchJson e url opts onCancel =
           \<lparr>issued = [(url, opts)], logged = [err], outcome = Threw err\<rparr>"
  using assms by (auto simp add: fetchJson_def catch_clause_def)

subsection \<open>Every call is one fetchJson\<close>

lemma issued_then_call: "issued (then_call r f) = issued r"
  by (simp add: then_call_def split: outcome.splits sum.splits)

lemma logged_then_call: "logged (then_call r f) = logged r"
  by (simp add: then_call_def split: outcome.splits sum.splits)

lemma outcome_then_call:
  "outcome (then_call r f) =
     (case outcome r of
        Resolved v \<Rightarrow> (case f v of Inl err \<Rightarrow> Threw err | Inr v' \<Rightarrow> Resolved v')
      | Threw err \<Rightarrow> Threw err
      | Rejected v \<Rightarrow> Rejected v)"
  by (simp add: then_call_def split: outcome.splits sum.splits)

lemma perform_fetchJson:
  assumes "issued (perform e c sig) = [(url, opts)]"
  shows "outcome (perform e c sig) = settle e c (outcome (fetchJson e url opts (onCancel_of c)))
         \<and> logged (perform e c sig) = logged (fetchJson e url opts (onCancel_of c))"
proof (cases c)
  case (ListReservations params)
  from assms ListReservations obtain u where u: "new_URL e (API_BASE_URL e @ ''/reservations'') = Inr u"
    by (cases "new_URL e (API_BASE_URL e @ ''/reservations'')")
      (simp_all add: listReservations_def throws_def)
  from assms ListReservations u obtain url' where url': "append_entries params u = Inr url'"
    by (cases "append_entries params u") (simp_all add: listReservations_def throws_def)
  from assms ListReservations u url'
  have "href url' = url"
    and "\<lparr>http_method = None, http_headers = Some headers, body = None, signal = sig\<rparr> = opts"
    by (simp_all add: listReservations_def issued_then_call issued_fetchJson)
  with ListReservations u url' show ?thesis
    by (auto simp add: listReservations_def logged_then_call outcome_then_call settle_def
        formatted_def split: outcome.splits sum.splits)
next
  case (SeatReservation reservation_id table)
  with assms show ?thesis
    by (auto simp add: seatReservation_def throws_def issued_fetchJson settle_def
        split: sum.splits outcome.splits)
next
  case (UpdateReservation reservation)
  with assms show ?thesis
    by (auto simp add: updateReservation_def throws_def issued_fetchJson settle_def
        split: sum.splits outcome.splits)
next
  case (FinishTable table)
  with assms show ?thesis
    by (auto simp add: finishTable_def throws_def issued_fetchJson settle_def
        split: sum.splits outcome.splits)
next
  case (SearchByPhone mobile_number)
  with assms show ?thesis
    by (auto simp add: searchByPhone_def throws_def issued_fetchJson settle_def
        split: sum.splits outcome.splits)
next
  case (ReadReservation reservation_id)
  with assms show ?thesis
    by (auto simp add: readReservation_def throws_def issued_fetchJson settle_def
        split: sum.splits outcome.splits)
next
  case (UpdateReservationStatus reservation_id status')
  with assms show ?thesis
    by (auto simp add: updateReservationStatus_def throws_def issued_fetchJson settle_def
        split: sum.splits outcome.splits)
next
  case (ReadTableByReservation reservation_id)
  with assms show ?thesis
    by (auto simp add: readTableByReservation_def throws_def issued_fetchJson settle_def
        split: sum.splits outcome.splits)
qed (use assms in \<open>auto simp add: createReservation_def listTables_def createTable_def
      issued_fetchJson settle_def split: outcome.splits\<close>)

subsection \<open>The error envelope\<close>

text \<open>
  C1, as amended: for every exported function, when the response to its request has a status
  other than 204 and its body parses to an object whose \<^verbatim>\<open>error\<close> field is truthy, the
  promise rejects with an object whose \<^verbatim>\<open>message\<close> is the value of that field, whatever
  the status is otherwise, and nothing is logged.
\<close>

theorem error_field_rejects:
  assumes "issued (perform e c sig) = [(url, opts)]"
    and "fetch e url opts = Inr resp" and "status resp \<noteq> 204"
    and "json resp = Inr (Obj kvs)" and "map_of kvs ''error'' = Some v" and "truthy v"
  shows "outcome (perform e c sig) = Rejected (Obj [(''message'', v)])
         \<and> logged (perform e c sig) = []"
proof -
  have "read_prop (Obj kvs) ''error'' = Inr v"
    using assms(5) by simp
  with assms have "fetchJson e url opts (onCancel_of c) =
      \<lparr>issued = [(url, opts)], logged = [], outcome = Rejected (Obj [(''message'', v)])\<rparr>"
    by (intro fetchJson_error)
  with perform_fetchJson [OF assms(1)] show ?thesis
    by (simp add: settle_def)
qed

theorem error_field_rejects_witness:
  "outcome (perform
      (example_env (Inr \<lparr>status = 400, json = Inr (Obj [(''error'', Str ''people must be a number'')])\<rparr>))
      (CreateReservation (Obj [(''people'', Str ''two'')])) None)
     = Rejected (Obj [(''message'', Str ''people must be a number'')])
   \<and> logged (perform
      (example_env (Inr \<lparr>status = 400, json = Inr (Obj [(''error'', Str ''people must be a number'')])\<rparr>))
      (CreateReservation (Obj [(''people'', Str ''two'')])) None) = []"
  by (rule error_field_rejects
      [where url = "''http://localhost:5001/reservations''"
         and opts = "\<lparr>http_method = Some ''POST'', http_headers = Some headers,
                      body = Some (stringify (Obj [(''data'', Obj [(''people'', Str ''two'')])])),
                      signal = None\<rparr>"
         and kvs = "[(''error'', Str ''people must be a number'')]"])
    (simp add: createReservation_def issued_fetchJson example_env_def API_BASE_URL_def)+

text \<open>
  C1 as stated fails: a response with status 204 whose body is the JSON text of an error
  envelope resolves with null, and an \<^verbatim>\<open>error\<close> field holding the empty string does not
  reject.
\<close>

theorem error_field_counterexample:
  "outcome (perform
      (example_env (Inr \<lparr>status = 204, json = Inr (Obj [(''error'', Str ''not found'')])\<rparr>))
      (ReadReservation (Num (Safe 1))) None) = Resolved Null
   \<and> outcome (perform
      (example_env (Inr \<lparr>status = 500, json = Inr (Obj [(''error'', Str [])])\<rparr>))
      (ReadReservation (Num (Safe 1))) None) = Resolved Undefined"
  by (simp add: readReservation_def fetchJson_def example_env_def Number_toString_def
      int_of_safe_Safe digits.simps)

text \<open>
  C2, as amended: for every exported function, when the response to its request has a status
  other than 204, whether a success status or not, and its body parses to a JSON value that
  is not null and has no \<^verbatim>\<open>error\<close> field, the \<^verbatim>\<open>data\<close> field of the payload (undefined
  where there is none) is what \<^verbatim>\<open>fetchJson\<close> resolves with. Every function but
  \<^verbatim>\<open>listReservations\<close> resolves with that value; \<^verbatim>\<open>listReservations\<close> hands it to its
  formatters and settles as they do.
\<close>

theorem data_field_resolves:
  assumes "issued (perform e c sig) = [(url, opts)]"
    and "fetch e url opts = Inr resp" and "status resp \<noteq> 204"
    and "json resp = Inr payload" and "read_prop payload ''error'' = Inr Undefined"
  shows "\<exists>d. read_prop payload ''data'' = Inr d
           \<and> outcome (perform e c sig) = delivered e c d
           \<and> logged (perform e c sig) = []"
proof -
  from assms(5) obtain d where d: "read_prop payload ''data'' = Inr d"
    using read_prop_twice by blast
  have "\<not> truthy Undefined"
    by simp
  with assms d have "fetchJson e url opts (onCancel_of c) =
      \<lparr>issued = [(url, opts)], logged = [], outcome = Resolved d\<rparr>"
    by (intro fetchJson_data)
  with perform_fetchJson [OF assms(1)] d show ?thesis
    by (simp add: settle_def)
qed

theorem data_field_resolves_witness:
  "\<exists>d. read_prop (Obj [(''message'', Str ''Internal Server Error'')]) ''data'' = Inr d
     \<and> outcome (perform
          (example_env (Inr \<lparr>status = 500,
             json = Inr (Obj [(''message'', Str ''Internal Server Error'')])\<rparr>))
          ListTables None) = delivered
          (example_env (Inr \<lparr>status = 500,
             json = Inr (Obj [(''message'', Str ''Internal Server Error'')])\<rparr>))
          ListTables d
     \<and> logged (perform
          (example_env (Inr \<lparr>status = 500,
             json = Inr (Obj [(''message'', Str ''Internal Server Error'')])\<rparr>))
          ListTables None) = []"
  by (rule data_field_resolves
      [where url = "''http://localhost:5001/tables''"
         and opts = "\<lparr>http_method = None, http_headers = None, body = None, signal = None\<rparr>"])
    (simp add: listTables_def issued_fetchJson example_env_def API_BASE_URL_def)+

text \<open>
  C2 as stated fails: the body \<^verbatim>\<open>null\<close> parses as JSON and has no \<^verbatim>\<open>error\<close> field, and
  reading \<^verbatim>\<open>payload.error\<close> then throws a TypeError; and \<^verbatim>\<open>listReservations\<close> resolves
  with what its formatters return, not with the \<^verbatim>\<open>data\<close> field as it was received.
\<close>

theorem data_field_counterexample:
  "outcome (perform (example_env (Inr \<lparr>status = 200, json = Inr Null\<rparr>))
      (ReadReservation (Num (Safe 1))) None) = Threw TypeError
   \<and> outcome (perform
        (example_env (Inr \<lparr>status = 200,
           json = Inr (Obj [(''data'',
             Arr [Obj [(''reservation_date'', Str ''2023-01-01T00:00:00.000Z'')]])])\<rparr>))
        (ListReservations []) None)
       = Resolved (Arr [Obj [(''reservation_date'', Str ''2023-01-01'')]])"
  by (simp add: readReservation_def listReservations_def fetchJson_def catch_clause_def
      then_call_def href_def formatReservationDate_def formatReservationTime_def
      date_formatter_def example_env_def example_new_URL_def API_BASE_URL_def TypeError_def
      Number_toString_def int_of_safe_Safe digits.simps)

text \<open>
  C10, as amended: the test of the \<^verbatim>\<open>error\<close> field is a truthiness test. For every exported
  function, when the response to its request has a status other than 204 (a 204 response
  has no body to parse) and its body parses to an object whose \<^verbatim>\<open>error\<close> field is falsy
  (the empty string, 0, false or null), \<^verbatim>\<open>fetchJson\<close> does not reject and logs nothing: it
  resolves with the \<^verbatim>\<open>data\<close> field of the payload, undefined where there is none. Every
  function but \<^verbatim>\<open>listReservations\<close> resolves with that value;
  \<^verbatim>\<open>listReservations\<close> hands it to its two formatter handlers and settles as they do.
\<close>

theorem falsy_error_is_success:
  assumes "issued (perform e c sig) = [(url, opts)]"
    and "fetch e url opts = Inr resp" and "status resp \<noteq> 204"
    and "json resp = Inr (Obj kvs)" and "map_of kvs ''error'' = Some v" and "\<not> truthy v"
    and "d = (case map_of kvs ''data'' of None \<Rightarrow> Undefined | Some x \<Rightarrow> x)"
  shows "fetchJson e url opts onCancel =
           \<lparr>issued = [(url, opts)], logged = [], outcome = Resolved d\<rparr>
         \<and> outcome (perform e c sig) =
             (case c of
                ListReservations params \<Rightarrow>
                  (case formatReservationDate e d of
                     Inl err \<Rightarrow> Threw err
                   | Inr d' \<Rightarrow>
                       (case formatReservationTime e d' of
                          Inl err \<Rightarrow> Threw err
                        | Inr d'' \<Rightarrow> Resolved d''))
              | _ \<Rightarrow> Resolved d)
         \<and> logged (perform e c sig) = []"
proof -
  have "read_prop (Obj kvs) ''error'' = Inr v" and "read_prop (Obj kvs) ''data'' = Inr d"
    using assms(5,7) by simp_all
  with assms have f: "\<And>fallback. fetchJson e url opts fallback =
      \<lparr>issued = [(url, opts)], logged = [], outcome = Resolved d\<rparr>"
    by (intro fetchJson_data)
  with perform_fetchJson [OF assms(1)]
  have "outcome (perform e c sig) = delivered e c d" and "logged (perform e c sig) = []"
    by (simp_all add: settle_def)
  with f show ?thesis
    by (cases c) (simp_all add: formatted_def)
qed

theorem falsy_error_is_success_witness:
  "outcome (perform
      (example_env (Inr \<lparr>status = 200,
         json = Inr (Obj [(''error'', Num (Safe 0)), (''data'', Obj [(''table_id'', Num (Safe 3))])])\<rparr>))
      (ReadTableByReservation (Num (Safe 8))) None)
     = Resolved (Obj [(''table_id'', Num (Safe 3))])
   \<and> logged (perform
      (example_env (Inr \<lparr>status = 200,
         json = Inr (Obj [(''error'', Num (Safe 0)), (''data'', Obj [(''table_id'', Num (Safe 3))])])\<rparr>))
      (ReadTableByReservation (Num (Safe 8))) None) = []"
proof -
  let ?resp = "\<lparr>status = 200,
      json = Inr (Obj [(''error'', Num (Safe 0)), (''data'', Obj [(''table_id'', Num (Safe 3))])])\<rparr>"
  let ?e = "example_env (Inr ?resp)"
  let ?url = "''http://localhost:5001/tables/seated/8''"
  let ?opts = "\<lparr>http_method = None, http_headers = None, body = None, signal = None\<rparr>"
  let ?kvs = "[(''error'', Num (Safe 0)), (''data'', Obj [(''table_id'', Num (Safe 3))])]"
  have i: "issued (perform ?e (ReadTableByReservation (Num (Safe 8))) None) = [(?url, ?opts)]"
    by (simp add: readTableByReservation_def issued_fetchJson example_env_def API_BASE_URL_def
        Number_toString_def int_of_safe_Safe digits.simps)
  have f: "fetch ?e ?url ?opts = Inr ?resp"
    by (simp add: example_env_def)
  have s: "status ?resp \<noteq> 204" and j: "json ?resp = Inr (Obj ?kvs)"
    and m: "map_of ?kvs ''error'' = Some (Num (Safe 0))" and t: "\<not> truthy (Num (Safe 0))"
    and d: "Obj [(''table_id'', Num (Safe 3))]
              = (case map_of ?kvs ''data'' of None \<Rightarrow> Undefined | Some x \<Rightarrow> x)"
    by (simp_all add: int_of_safe_Safe)
  from falsy_error_is_success [OF i f s j m t d] show ?thesis
    by simp
qed

text \<open>
  C10 as stated fails for \<^verbatim>\<open>listReservations\<close>: on a payload whose \<^verbatim>\<open>error\<close> is null it
  resolves with what its formatter handlers return, not with the \<^verbatim>\<open>data\<close> field of the
  payload.
\<close>

theorem falsy_error_counterexample:
  "outcome (perform
      (example_env (Inr \<lparr>status = 200,
         json = Inr (Obj [(''error'', Null), (''data'',
           Arr [Obj [(''reservation_date'', Str ''2023-01-01T00:00:00.000Z'')]])])\<rparr>))
      (ListReservations []) None)
    = Resolved (Arr [Obj [(''reservation_date'', Str ''2023-01-01'')]])
   \<and> Resolved (Arr [Obj [(''reservation_date'', Str ''2023-01-01'')]])
       \<noteq> Resolved (Arr [Obj [(''reservation_date'', Str ''2023-01-01T00:00:00.000Z'')]])"
  by (simp add: listReservations_def fetchJson_def then_call_def href_def
      formatReservationDate_def formatReservationTime_def date_formatter_def example_env_def
      example_new_URL_def API_BASE_URL_def)

subsection \<open>Cancellation and empty responses\<close>

text \<open>
  C3, as amended: for every exported function, when the request it issued is aborted (the
  promise of \<^verbatim>\<open>fetch\<close>, or the read of the body, rejects with an AbortError), nothing is
  thrown or logged, and \<^verbatim>\<open>fetchJson\<close> resolves with the fallback that the function passed:
  an empty object for the six functions that write (\<^verbatim>\<open>createReservation\<close>,
  \<^verbatim>\<open>seatReservation\<close>, \<^verbatim>\<open>updateReservation\<close>, \<^verbatim>\<open>updateReservationStatus\<close>,
  \<^verbatim>\<open>createTable\<close>, \<^verbatim>\<open>finishTable\<close>), undefined for the four that read and pass no
  fallback (\<^verbatim>\<open>searchByPhone\<close>, \<^verbatim>\<open>readReservation\<close>, \<^verbatim>\<open>listTables\<close>,
  \<^verbatim>\<open>readTableByReservation\<close>), and an empty array for \<^verbatim>\<open>listReservations\<close>, which hands
  it to its formatters.
\<close>

theorem abort_resolves_with_fallback:
  assumes "issued (perform e c sig) = [(url, opts)]"
    and "fetch e url opts = Inl err
         \<or> (fetch e url opts = Inr resp \<and> status resp \<noteq> 204 \<and> json resp = Inl err)"
    and "name err = ''AbortError''"
  shows "outcome (perform e c sig) =
           (case c of
              ListReservations params \<Rightarrow> formatted e (Arr [])
            | SearchByPhone mobile_number \<Rightarrow> Resolved Undefined
            | CreateReservation reservation \<Rightarrow> Resolved (Obj [])
            | ReadReservation reservation_id \<Rightarrow> Resolved Undefined
            | SeatReservation reservation_id table \<Rightarrow> Resolved (Obj [])
            | UpdateReservation reservation \<Rightarrow> Resolved (Obj [])
            | UpdateReservationStatus reservation_id status' \<Rightarrow> Resolved (Obj [])
            | ListTables \<Rightarrow> Resolved Undefined
            | CreateTable table \<Rightarrow> Resolved (Obj [])
            | ReadTableByReservation reservation_id \<Rightarrow> Resolved Undefined
            | FinishTable table \<Rightarrow> Resolved (Obj []))
         \<and> logged (perform e c sig) = []"
proof -
  have "fetchJson e url opts (onCancel_of c) =
      \<lparr>issued = [(url, opts)], logged = [], outcome = Resolved (onCancel_of c)\<rparr>"
    using assms(2,3) by (rule fetchJson_aborted)
  with perform_fetchJson [OF assms(1)]
  have "outcome (perform e c sig) = delivered e c (onCancel_of c)"
    and "logged (perform e c sig) = []"
    by (simp_all add: settle_def)
  then show ?thesis
    by (cases c) simp_all
qed

theorem abort_resolves_with_fallback_witness:
  "outcome (perform (example_env (Inl (Error ''AbortError'' ''The user aborted a request.'')))
      (FinishTable (Obj [(''table_id'', Num (Safe 5))])) None) = Resolved (Obj [])
   \<and> logged (perform (example_env (Inl (Error ''AbortError'' ''The user aborted a request.'')))
      (FinishTable (Obj [(''table_id'', Num (Safe 5))])) None) = []"
proof -
  let ?e = "example_env (Inl (Error ''AbortError'' ''The user aborted a request.''))"
  let ?url = "''http://localhost:5001/tables/5/seat''"
  let ?opts = "\<lparr>http_method = Some ''DELETE'', http_headers = Some headers, body = None,
                signal = None\<rparr>"
  have i: "issued (perform ?e (FinishTable (Obj [(''table_id'', Num (Safe 5))])) None) = [(?url, ?opts)]"
    by (simp add: finishTable_def issued_fetchJson example_env_def API_BASE_URL_def
        Number_toString_def int_of_safe_Safe digits.simps)
  have f: "fetch ?e ?url ?opts = Inl (Error ''AbortError'' ''The user aborted a request.'')
           \<or> (fetch ?e ?url ?opts = Inr \<lparr>status = 200, json = Inr Null\<rparr>
              \<and> status \<lparr>status = 200, json = Inr Null\<rparr> \<noteq> 204
              \<and> json \<lparr>status = 200, json = Inr Null\<rparr>
                  = Inl (Error ''AbortError'' ''The user aborted a request.''))"
    by (simp add: example_env_def)
  have n: "name (Error ''AbortError'' ''The user aborted a request.'') = ''AbortError''"
    by simp
  from abort_resolves_with_fallback [OF i f n] show ?thesis
    by simp
qed

text \<open>
  C3 as stated fails for the functions that pass no fallback: an aborted
  \<^verbatim>\<open>readReservation\<close>, a single-record operation, resolves with undefined, not with an
  empty object.
\<close>

theorem abort_fallback_counterexample:
  "outcome (perform (example_env (Inl (Error ''AbortError'' ''The user aborted a request.'')))
      (ReadReservation (Num (Safe 1))) None) = Resolved Undefined"
  by (simp add: readReservation_def fetchJson_def catch_clause_def example_env_def
      Number_toString_def int_of_safe_Safe digits.simps)



subsection \<open>Headers\<close>

text \<open>
  C9, as amended: the request carries the header Content-Type: application/json when it is
  issued by one of the seven functions that put \<^verbatim>\<open>headers\<close> in their options
  (\<^verbatim>\<open>listReservations\<close>, \<^verbatim>\<open>createReservation\<close>, \<^verbatim>\<open>seatReservation\<close>,
  \<^verbatim>\<open>updateReservation\<close>, \<^verbatim>\<open>updateReservationStatus\<close>, \<^verbatim>\<open>createTable\<close>,
  \<^verbatim>\<open>finishTable\<close>); the four others (\<^verbatim>\<open>searchByPhone\<close>, \<^verbatim>\<open>readReservation\<close>,
  \<^verbatim>\<open>listTables\<close>, \<^verbatim>\<open>readTableByReservation\<close>) pass the signal only, and no headers.
\<close>

theorem content_type_where_passed:
  assumes "issued (perform e c sig) = [(url, opts)]"
  shows "http_headers opts =
           (case c of
              ListReservations params \<Rightarrow> Some [(''Content-Type'', ''application/json'')]
            | SearchByPhone mobile_number \<Rightarrow> None
            | CreateReservation reservation \<Rightarrow> Some [(''Content-Type'', ''application/json'')]
            | ReadReservation reservation_id \<Rightarrow> None
            | SeatReservation reservation_id table \<Rightarrow>
                Some [(''Content-Type'', ''application/json'')]
            | UpdateReservation reservation \<Rightarrow> Some [(''Content-Type'', ''application/json'')]
            | UpdateReservationStatus reservation_id status' \<Rightarrow>
                Some [(''Content-Type'', ''application/json'')]
            | ListTables \<Rightarrow> None
            | CreateTable table \<Rightarrow> Some [(''Content-Type'', ''application/json'')]
            | ReadTableByReservation reservation_id \<Rightarrow> None
            | FinishTable table \<Rightarrow> Some [(''Content-Type'', ''application/json'')])"
proof (cases c)
  case (ListReservations params)
  with assms show ?thesis
    by (auto simp add: listReservations_def throws_def issued_then_call issued_fetchJson
        headers_def split: sum.splits)
next
  case (SeatReservation reservation_id table)
  with assms show ?thesis
    by (auto simp add: seatReservation_def throws_def issued_fetchJson headers_def
        split: sum.splits)
next
  case (UpdateReservation reservation)
  with assms show ?thesis
    by (auto simp add: updateReservation_def throws_def issued_fetchJson headers_def
        split: sum.splits)
next
  case (FinishTable table)
  with assms show ?thesis
    by (auto simp add: finishTable_def throws_def issued_fetchJson headers_def
        split: sum.splits)
next
  case (SearchByPhone mobile_number)
  with assms show ?thesis
    by (auto simp add: searchByPhone_def throws_def issued_fetchJson split: sum.splits)
next
  case (ReadReservation reservation_id)
  with assms show ?thesis
    by (auto simp add: readReservation_def throws_def issued_fetchJson split: sum.splits)
next
  case (UpdateReservationStatus reservation_id status')
  with assms show ?thesis
    by (auto simp add: updateReservationStatus_def throws_def issued_fetchJson headers_def
        split: sum.splits)
next
  case (ReadTableByReservation reservation_id)
  with assms show ?thesis
    by (auto simp add: readTableByReservation_def throws_def issued_fetchJson
        split: sum.splits)
qed (use assms in \<open>auto simp add: createReservation_def listTables_def createTable_def
      issued_fetchJson headers_def\<close>)

theorem content_type_where_passed_witness:
  "issued (perform (example_env (Inr \<lparr>status = 200, json = Inr (Obj [(''data'', Obj [])])\<rparr>))
      (SeatReservation (Num (Safe 12)) (Obj [(''table_id'', Num (Safe 2))])) (Some 1))
      = [(''http://localhost:5001/tables/2/seat'',
          \<lparr>http_method = Some ''PUT'', http_headers = Some headers,
           body = Some (stringify (Obj [(''data'', Obj [(''reservation_id'', Num (Safe 12))])])),
           signal = Some 1\<rparr>)]
   \<and> http_headers
     \<lparr>http_method = Some ''PUT'', http_headers = Some headers,
      body = Some (stringify (Obj [(''data'', Obj [(''reservation_id'', Num (Safe 12))])])),
      signal = Some 1\<rparr>
   = Some [(''Content-Type'', ''application/json'')]"
proof -
  let ?e = "example_env (Inr \<lparr>status = 200, json = Inr (Obj [(''data'', Obj [])])\<rparr>)"
  have i: "issued (perform ?e (SeatReservation (Num (Safe 12)) (Obj [(''table_id'', Num (Safe 2))])) (Some 1))
      = [(''http://localhost:5001/tables/2/seat'',
          \<lparr>http_method = Some ''PUT'', http_headers = Some headers,
           body = Some (stringify (Obj [(''data'', Obj [(''reservation_id'', Num (Safe 12))])])),
           signal = Some 1\<rparr>)]"
    by (simp add: seatReservation_def issued_fetchJson example_env_def API_BASE_URL_def
        Number_toString_def int_of_safe_Safe digits.simps)
  from i content_type_where_passed [OF i] show ?thesis
    by simp
qed

text \<open>
  C9 as stated fails: the request of \<^verbatim>\<open>readReservation\<close> is issued with the options
  \<^verbatim>\<open>{ signal }\<close>, without headers.
\<close>

theorem content_type_counterexample:
  "issued (perform (example_env (Inr \<lparr>status = 200, json = Inr (Obj [(''data'', Obj [])])\<rparr>))
      (ReadReservation (Num (Safe 1))) None)
   = [(''http://localhost:5001/reservations/1'',
       \<lparr>http_method = None, http_headers = None, body = None, signal = None\<rparr>)]"
  by (simp add: readReservation_def issued_fetchJson example_env_def API_BASE_URL_def
      Number_toString_def int_of_safe_Safe digits.simps)

subsection \<open>The requests of single functions\<close>

text \<open>
  C5: \<^verbatim>\<open>createReservation\<close>, called with any reservation record (one without an id among
  them), issues exactly one request, a POST to the base URL followed by
  \<^verbatim>\<open>/reservations\<close>, whose body is the JSON text of the object with the reservation as its
  \<^verbatim>\<open>data\<close>; and when the response to that request is a JSON envelope with a \<^verbatim>\<open>data\<close> field
  and no \<^verbatim>\<open>error\<close> field (status other than 204), the promise resolves with that field.
\<close>

theorem createReservation_posts_record:
  "issued (createReservation e reservation sig) =
     [(API_BASE_URL e @ ''/reservations'',
       \<lparr>http_method = Some ''POST'',
        http_headers = Some [(''Content-Type'', ''application/json'')],
        body = Some (JSON_stringify e (Obj [(''data'', reservation)])),
        signal = sig\<rparr>)]
   \<and> request_method
       \<lparr>http_method = Some ''POST'',
        http_headers = Some [(''Content-Type'', ''application/json'')],
        body = Some (JSON_stringify e (Obj [(''data'', reservation)])),
        signal = sig\<rparr> = ''POST''
   \<and> (fetch e (API_BASE_URL e @ ''/reservations'')
         \<lparr>http_method = Some ''POST'',
          http_headers = Some [(''Content-Type'', ''application/json'')],
          body = Some (JSON_stringify e (Obj [(''data'', reservation)])),
          signal = sig\<rparr> = Inr resp
       \<and> status resp \<noteq> 204 \<and> json resp = Inr (Obj kvs)
       \<and> map_of kvs ''error'' = None \<and> map_of kvs ''data'' = Some d
       \<longrightarrow> outcome (createReservation e reservation sig) = Resolved d)"
proof (intro conjI impI)
  show "issued (createReservation e reservation sig) =
     [(API_BASE_URL e @ ''/reservations'',
       \<lparr>http_method = Some ''POST'',
        http_headers = Some [(''Content-Type'', ''application/json'')],
        body = Some (JSON_stringify e (Obj [(''data'', reservation)])),
        signal = sig\<rparr>)]"
    by (simp add: createReservation_def issued_fetchJson headers_def)
qed (simp_all add: createReservation_def fetchJson_def headers_def request_method_def)

theorem createReservation_posts_record_witness:
  "outcome (createReservation
      (example_env (Inr \<lparr>status = 201,
         json = Inr (Obj [(''data'',
           Obj [(''reservation_id'', Num (Safe 7)), (''first_name'', Str ''Ada'')])])\<rparr>))
      (Obj [(''first_name'', Str ''Ada'')]) None)
   = Resolved (Obj [(''reservation_id'', Num (Safe 7)), (''first_name'', Str ''Ada'')])"
  using createReservation_posts_record
    [of "example_env (Inr \<lparr>status = 201,
           json = Inr (Obj [(''data'',
             Obj [(''reservation_id'', Num (Safe 7)), (''first_name'', Str ''Ada'')])])\<rparr>)"
        "Obj [(''first_name'', Str ''Ada'')]" None
        "\<lparr>status = 201,
           json = Inr (Obj [(''data'',
             Obj [(''reservation_id'', Num (Safe 7)), (''first_name'', Str ''Ada'')])])\<rparr>"
        "[(''data'', Obj [(''reservation_id'', Num (Safe 7)), (''first_name'', Str ''Ada'')])]"
        "Obj [(''reservation_id'', Num (Safe 7)), (''first_name'', Str ''Ada'')]"]
  by (simp add: example_env_def)



text \<open>
  C8, as amended: the creation functions make no check of an identifier. For every record,
  with or without one, \<^verbatim>\<open>createReservation\<close> and \<^verbatim>\<open>createTable\<close> issue exactly one POST
  with the record as the \<^verbatim>\<open>data\<close> of the body, and a response with a JSON envelope without
  an \<^verbatim>\<open>error\<close> field (status other than 204) resolves with the \<^verbatim>\<open>data\<close> field of the
  payload as it is, whether it carries an identifier or not (undefined where the payload
  has no such field).
\<close>

theorem creation_checks_no_identifier:
  "issued (createReservation e record sig) =
     [(API_BASE_URL e @ ''/reservations'',
       \<lparr>http_method = Some ''POST'', http_headers = Some headers,
        body = Some (JSON_stringify e (Obj [(''data'', record)])), signal = sig\<rparr>)]
   \<and> issued (createTable e record sig) =
     [(API_BASE_URL e @ ''/tables'',
       \<lparr>http_method = Some ''POST'', http_headers = Some headers,
        body = Some (JSON_stringify e (Obj [(''data'', record)])), signal = sig\<rparr>)]
   \<and> (fetch e (API_BASE_URL e @ ''/reservations'')
         \<lparr>http_method = Some ''POST'', http_headers = Some headers,
          body = Some (JSON_stringify e (Obj [(''data'', record)])), signal = sig\<rparr> = Inr resp
       \<and> status resp \<noteq> 204 \<and> json resp = Inr (Obj kvs) \<and> map_of kvs ''error'' = None
       \<longrightarrow> outcome (createReservation e record sig)
             = Resolved (case map_of kvs ''data'' of None \<Rightarrow> Undefined | Some d \<Rightarrow> d))
   \<and> (fetch e (API_BASE_URL e @ ''/tables'')
         \<lparr>http_method = Some ''POST'', http_headers = Some headers,
          body = Some (JSON_stringify e (Obj [(''data'', record)])), signal = sig\<rparr> = Inr resp
       \<and> status resp \<noteq> 204 \<and> json resp = Inr (Obj kvs) \<and> map_of kvs ''error'' = None
       \<longrightarrow> outcome (createTable e record sig)
             = Resolved (case map_of kvs ''data'' of None \<Rightarrow> Undefined | Some d \<Rightarrow> d))"
proof (intro conjI impI)
  show "issued (createReservation e record sig) =
     [(API_BASE_URL e @ ''/reservations'',
       \<lparr>http_method = Some ''POST'', http_headers = Some headers,
        body = Some (JSON_stringify e (Obj [(''data'', record)])), signal = sig\<rparr>)]"
    by (simp add: createReservation_def issued_fetchJson)
  show "issued (createTable e record sig) =
     [(API_BASE_URL e @ ''/tables'',
       \<lparr>http_method = Some ''POST'', http_headers = Some headers,
        body = Some (JSON_stringify e (Obj [(''data'', record)])), signal = sig\<rparr>)]"
    by (simp add: createTable_def issued_fetchJson)
qed (simp_all add: createReservation_def createTable_def fetchJson_def)

theorem creation_checks_no_identifier_witness:
  "outcome (createTable
      (example_env (Inr \<lparr>status = 201,
         json = Inr (Obj [(''data'', Obj [(''table_name'', Str ''Bar #1'')])])\<rparr>))
      (Obj [(''table_id'', Num (Safe 3)), (''table_name'', Str ''Bar #1'')]) None)
   = Resolved (Obj [(''table_name'', Str ''Bar #1'')])"
  using creation_checks_no_identifier
    [of "example_env (Inr \<lparr>status = 201,
           json = Inr (Obj [(''data'', Obj [(''table_name'', Str ''Bar #1'')])])\<rparr>)"
        "Obj [(''table_id'', Num (Safe 3)), (''table_name'', Str ''Bar #1'')]" None
        "\<lparr>status = 201,
           json = Inr (Obj [(''data'', Obj [(''table_name'', Str ''Bar #1'')])])\<rparr>"
        "[(''data'', Obj [(''table_name'', Str ''Bar #1'')])]"]
  by (simp add: example_env_def)

text \<open>
  C8 as stated fails: a reservation that already carries \<^verbatim>\<open>reservation_id\<close> is posted like
  any other, and a response whose \<^verbatim>\<open>data\<close> carries no identifier is resolved with.
\<close>

theorem creation_identifier_counterexample:
  "createReservation
      (example_env (Inr \<lparr>status = 201,
         json = Inr (Obj [(''data'', Obj [(''first_name'', Str ''Ada'')])])\<rparr>))
      (Obj [(''reservation_id'', Num (Safe 7)), (''first_name'', Str ''Ada'')]) None
   = \<lparr>issued = [(''http://localhost:5001/reservations'',
         \<lparr>http_method = Some ''POST'', http_headers = Some headers,
          body = Some (stringify
            (Obj [(''data'', Obj [(''reservation_id'', Num (Safe 7)), (''first_name'', Str ''Ada'')])])),
          signal = None\<rparr>)],
      logged = [],
      outcome = Resolved (Obj [(''first_name'', Str ''Ada'')])\<rparr>
   \<and> read_prop (Obj [(''reservation_id'', Num (Safe 7)), (''first_name'', Str ''Ada'')])
        ''reservation_id'' = Inr (Num (Safe 7))
   \<and> read_prop (Obj [(''first_name'', Str ''Ada'')]) ''reservation_id'' = Inr Undefined"
  by (simp add: createReservation_def fetchJson_def example_env_def API_BASE_URL_def)

text \<open>
  C6: \<^verbatim>\<open>listReservations\<close>, called with the one parameter \<^verbatim>\<open>date\<close> of value 2023-01-01,
  where the base followed by \<^verbatim>\<open>/reservations\<close> is an absolute URL that \<^verbatim>\<open>new URL\<close> keeps as
  it is written (normal form, no query, no fragment), issues a GET with the shared headers
  to that URL followed by \<^verbatim>\<open>?date=2023-01-01\<close>. The \<^verbatim>\<open>data\<close> of the response then goes twice
  through the default export of \<^verbatim>\<open>./format-reservation-date\<close>: line 6 binds the name
  \<^verbatim>\<open>formatReservationTime\<close> to that export, and no formatter of time fields is called.
\<close>

theorem listReservations_formats_date_twice:
  assumes "new_URL e (API_BASE_URL e @ ''/reservations'') =
             Inr \<lparr>origin_and_path = API_BASE_URL e @ ''/reservations'', query = None,
                  searchParams = [], fragment = None\<rparr>"
    and "fetch e (API_BASE_URL e @ ''/reservations?date=2023-01-01'')
             \<lparr>http_method = None, http_headers = Some headers, body = None, signal = sig\<rparr>
           = Inr resp"
    and "status resp \<noteq> 204" and "json resp = Inr (Obj [(''data'', d)])"
  shows "listReservations e [(''date'', Str ''2023-01-01'')] sig =
           \<lparr>issued = [(API_BASE_URL e @ ''/reservations?date=2023-01-01'',
               \<lparr>http_method = None, http_headers = Some headers, body = None, signal = sig\<rparr>)],
            logged = [],
            outcome =
              (case format_reservation_date_default e d of
                 Inl err \<Rightarrow> Threw err
               | Inr d' \<Rightarrow>
                   (case format_reservation_date_default e d' of
                      Inl err \<Rightarrow> Threw err
                    | Inr d'' \<Rightarrow> Resolved d''))\<rparr>
         \<and> request_method
             \<lparr>http_method = None, http_headers = Some headers, body = None, signal = sig\<rparr>
           = ''GET''"
proof -
  let ?u = "\<lparr>origin_and_path = API_BASE_URL e @ ''/reservations'', query = None,
             searchParams = [], fragment = None\<rparr>"
  let ?url = "searchParams_append ?u ''date'' ''2023-01-01''"
  have a: "append_entries [(''date'', Str ''2023-01-01'')] ?u = Inr ?url"
    by (simp add: toString_def)
  have q: "href ?url = API_BASE_URL e @ ''/reservations?date=2023-01-01''"
    by (simp add: href_def searchParams_append_def urlencode_def urlencode_byte_def)
  have "fetchJson e (API_BASE_URL e @ ''/reservations?date=2023-01-01'')
      \<lparr>http_method = None, http_headers = Some headers, body = None, signal = sig\<rparr> (Arr [])
    = \<lparr>issued = [(API_BASE_URL e @ ''/reservations?date=2023-01-01'',
          \<lparr>http_method = None, http_headers = Some headers, body = None, signal = sig\<rparr>)],
       logged = [], outcome = Resolved d\<rparr>"
    by (rule fetchJson_data [OF assms(2-4), where v = Undefined]) simp_all
  then show ?thesis
    unfolding listReservations_def assms(1) sum.case a q
    by (simp add: then_call_def formatReservationDate_def formatReservationTime_def
        request_method_def split: sum.splits)
qed

theorem listReservations_formats_date_twice_witness:
  "outcome (listReservations
      (example_env (Inr \<lparr>status = 200,
         json = Inr (Obj [(''data'',
           Arr [Obj [(''reservation_date'', Str ''2023-01-01T00:00:00.000Z''),
                     (''reservation_time'', Str ''10:30:00'')]])])\<rparr>))
      [(''date'', Str ''2023-01-01'')] None)
   = Resolved (Arr [Obj [(''reservation_date'', Str ''2023-01-01''),
                         (''reservation_time'', Str ''10:30:00'')]])"
proof -
  let ?d = "Arr [Obj [(''reservation_date'', Str ''2023-01-01T00:00:00.000Z''),
                      (''reservation_time'', Str ''10:30:00'')]]"
  let ?resp = "\<lparr>status = 200, json = Inr (Obj [(''data'', ?d)])\<rparr>"
  have u: "new_URL (example_env (Inr ?resp))
             (API_BASE_URL (example_env (Inr ?resp)) @ ''/reservations'') =
           Inr \<lparr>origin_and_path = API_BASE_URL (example_env (Inr ?resp)) @ ''/reservations'',
                query = None, searchParams = [], fragment = None\<rparr>"
    by (simp add: example_env_def example_new_URL_def API_BASE_URL_def)
  have f: "fetch (example_env (Inr ?resp))
             (API_BASE_URL (example_env (Inr ?resp)) @ ''/reservations?date=2023-01-01'')
             \<lparr>http_method = None, http_headers = Some headers, body = None, signal = None\<rparr>
           = Inr ?resp"
    by (simp add: example_env_def)
  have s: "status ?resp \<noteq> 204" and j: "json ?resp = Inr (Obj [(''data'', ?d)])"
    by simp_all
  from listReservations_formats_date_twice [OF u f s j] show ?thesis
    by (simp add: example_env_def date_formatter_def)
qed

end
